theory Spec2Isabelle
  imports Complex_Main "HOL-Library.Sublist" "HOL-Library.Log_Nat"
begin

section \<open>JavaScript values used by the pipeline\<close>

text \<open>
  The services are JavaScript. Numbers that the code only ever builds from integers by
  addition, subtraction and halving are doubles that no operation rounds, and they are
  modelled exactly: integers as \<open>int\<close> or \<open>nat\<close>, halves as \<open>rat\<close>. The quotients and
  products of the statistical analysis are rounded to doubles; they are modelled there.
  \<open>Math.round\<close> rounds to the nearest integer, halves upwards.
\<close>

definition Math_round :: "rat \<Rightarrow> int" where
  "Math_round x = \<lfloor>x + 1 / 2\<rfloor>"

section \<open>Risk scoring (data-transformation-service.js)\<close>

text \<open>
  A row of the risk-assessment query: the registry columns and the violation total.
  \<open>yearbuilt\<close> is an integer column, \<open>total_violations\<close> the sum of two counts.
\<close>

record building =
  bbl :: string
  address :: string
  borough :: string
  bldgclass :: string
  yearbuilt :: int
  total_violations :: int

record scored_building = building +
  age_score :: int
  violation_score :: int
  risk_score :: rat
  risk_level :: string

text \<open>
  \<open>calculateBuildingAgeScore\<close>; the first argument is \<open>new Date().getFullYear()\<close>,
  read from the clock by the source.
\<close>

definition calculateBuildingAgeScore :: "int \<Rightarrow> int \<Rightarrow> int" where
  "calculateBuildingAgeScore currentYear yearBuilt =
     (let age = currentYear - yearBuilt in
      if age \<ge> 100 then 100
      else if age \<le> 10 then 10
      else Math_round (of_int (age - 10) * (90 / 90) + 10))"

definition calculateViolationScore :: "int \<Rightarrow> int" where
  "calculateViolationScore violationCount =
     (if violationCount = 0 then 0
      else if violationCount \<ge> 20 then 100
      else Math_round (of_int violationCount * 5))"

definition getRiskLevel :: "rat \<Rightarrow> string" where
  "getRiskLevel score =
     (if score \<ge> 80 then ''High''
      else if score \<ge> 50 then ''Medium''
      else if score \<ge> 20 then ''Low''
      else ''Minimal'')"

text \<open>The body of the \<open>rows.map\<close> callback of \<open>transformRiskAssessmentData\<close>.\<close>

definition scoreBuilding :: "int \<Rightarrow> building \<Rightarrow> scored_building" where
  "scoreBuilding currentYear b =
     (let ageScore = calculateBuildingAgeScore currentYear (yearbuilt b);
          violationScore = calculateViolationScore (total_violations b);
          riskScore = (of_int (ageScore + violationScore) :: rat) / 2
      in building.extend b
           \<lparr> age_score = ageScore, violation_score = violationScore,
             risk_score = riskScore, risk_level = getRiskLevel riskScore \<rparr>)"

record risk_metadata =
  count :: nat
  highRiskCount :: nat
  mediumRiskCount :: nat
  lowRiskCount :: nat
  minimalRiskCount :: nat

definition transformRiskAssessmentData ::
  "int \<Rightarrow> building list \<Rightarrow> scored_building list \<times> risk_metadata" where
  "transformRiskAssessmentData currentYear rows =
     (let data = map (scoreBuilding currentYear) rows in
      (data,
       \<lparr> count = length data,
         highRiskCount = length (filter (\<lambda>b. risk_level b = ''High'') data),
         mediumRiskCount = length (filter (\<lambda>b. risk_level b = ''Medium'') data),
         lowRiskCount = length (filter (\<lambda>b. risk_level b = ''Low'') data),
         minimalRiskCount = length (filter (\<lambda>b. risk_level b = ''Minimal'') data) \<rparr>))"

subsection \<open>The reference definition of the specification\<close>

text \<open>These four definitions follow the words of the specification, not the code.\<close>

definition spec_ageScore :: "int \<Rightarrow> int" where
  "spec_ageScore age =
     (if age \<ge> 100 then 100 else if age \<le> 10 then 10 else 10 + (age - 10))"

definition spec_violationScore :: "int \<Rightarrow> int" where
  "spec_violationScore n = (if n = 0 then 0 else min (n * 5) 100)"

definition spec_riskScore :: "int \<Rightarrow> int \<Rightarrow> rat" where
  "spec_riskScore age n = of_int (spec_ageScore age + spec_violationScore n) / 2"

datatype spec_level = High | Medium | Low | Minimal

definition spec_riskLevel :: "rat \<Rightarrow> spec_level" where
  "spec_riskLevel s =
     (if s \<ge> 80 then High else if s \<ge> 50 then Medium else if s \<ge> 20 then Low else Minimal)"

fun level_name :: "spec_level \<Rightarrow> string" where
  "level_name High = ''High''"
| "level_name Medium = ''Medium''"
| "level_name Low = ''Low''"
| "level_name Minimal = ''Minimal''"

section \<open>Structured queries (nlp-service.js)\<close>

text \<open>
  A JavaScript string is a \<open>string\<close>; a property that may be \<open>null\<close> or \<open>undefined\<close> is
  an \<open>option\<close>. A string is truthy when it is present and not empty; an array is truthy
  whenever it is present.
\<close>

definition truthy :: "string option \<Rightarrow> bool" where
  "truthy s = (case s of None \<Rightarrow> False | Some t \<Rightarrow> t \<noteq> [])"

datatype js_error = TypeError | ProcessingError

datatype jsval = JStr string | JNum int | JArr "jsval list"

text \<open>A time period is the phrase the model extracted or a resolved date range.\<close>

datatype period = PeriodText string | PeriodRange string string

record entities =
  locations :: "string list option"
  buildingTypes :: "string list option"
  timePeriods :: "period list option"
  violationTypes :: "string list option"
  propertyAttributes :: "string list option"

definition empty_entities :: entities where
  "empty_entities = \<lparr> locations = None, buildingTypes = None, timePeriods = None,
     violationTypes = None, propertyAttributes = None \<rparr>"

record query_filter =
  f_table :: string
  f_column :: string
  f_operator :: string
  f_value :: jsval

record structured_query =
  queryType :: "string option"
  entities :: entities
  filters :: "query_filter list"
  aggregations :: "string option list"
  sortOrder :: "string option"
  limit :: int
  originalQuery :: "string option"

section \<open>Conversation state (interactive-refinement-service.js)\<close>

record history_entry =
  h_originalQuery :: "string option"
  h_queryType :: "string option"
  h_entities :: entities
  h_timestamp :: int
  h_responseId :: "string option"

record conversation_context =
  previousQueries :: "history_entry list"
  currentTopic :: "string option"
  currentEntities :: entities
  conversationId :: string
  startTime :: int
  messageCount :: nat

text \<open>
  The constructor. The identifier is drawn at random by \<open>generateConversationId\<close> and the
  start time is read from the clock (milliseconds since the epoch; the source stores the
  ISO rendering and parses it back); both are arguments here.
\<close>

definition newConversationContext :: "string \<Rightarrow> int \<Rightarrow> conversation_context" where
  "newConversationContext cid now =
     \<lparr> previousQueries = [], currentTopic = None, currentEntities = empty_entities,
       conversationId = cid, startTime = now, messageCount = 0 \<rparr>"

text \<open>The object spread \<open>{...a, ...b}\<close>: a key of \<open>b\<close> wins where \<open>b\<close> has it.\<close>

definition spread :: "'a option \<Rightarrow> 'a option \<Rightarrow> 'a option" where
  "spread a b = (case b of None \<Rightarrow> a | Some v \<Rightarrow> Some v)"

definition spread_entities :: "entities \<Rightarrow> entities \<Rightarrow> entities" where
  "spread_entities a b =
     \<lparr> locations = spread (locations a) (locations b),
       buildingTypes = spread (buildingTypes a) (buildingTypes b),
       timePeriods = spread (timePeriods a) (timePeriods b),
       violationTypes = spread (violationTypes a) (violationTypes b),
       propertyAttributes = spread (propertyAttributes a) (propertyAttributes b) \<rparr>"

text \<open>
  \<open>addQuery\<close>; \<open>rid\<close> is \<open>response.id\<close> and \<open>now\<close> the clock. The entities of a query
  are always an object, so the source's test \<open>if (structuredQuery.entities)\<close> succeeds.
\<close>

definition addQuery ::
  "conversation_context \<Rightarrow> structured_query \<Rightarrow> string option \<Rightarrow> int \<Rightarrow> conversation_context" where
  "addQuery ctx q rid now =
     ctx \<lparr> previousQueries := previousQueries ctx @
             [\<lparr> h_originalQuery = originalQuery q, h_queryType = queryType q,
                h_entities = entities q, h_timestamp = now,
                h_responseId = (if truthy rid then rid else None) \<rparr>],
           currentTopic := (if truthy (queryType q) then queryType q else currentTopic ctx),
           currentEntities := spread_entities (currentEntities ctx) (entities q),
           messageCount := messageCount ctx + 1 \<rparr>"

definition getLastQuery :: "conversation_context \<Rightarrow> history_entry option" where
  "getLastQuery ctx =
     (if length (previousQueries ctx) = 0 then None
      else Some (previousQueries ctx ! (length (previousQueries ctx) - 1)))"

record conversation_summary =
  s_conversationId :: string
  s_startTime :: int
  s_messageCount :: nat
  s_currentTopic :: "string option"
  s_currentEntities :: entities
  s_queryHistory :: "string option list"

definition getSummary :: "conversation_context \<Rightarrow> conversation_summary" where
  "getSummary ctx =
     \<lparr> s_conversationId = conversationId ctx, s_startTime = startTime ctx,
       s_messageCount = messageCount ctx, s_currentTopic = currentTopic ctx,
       s_currentEntities = currentEntities ctx,
       s_queryHistory = map h_originalQuery (previousQueries ctx) \<rparr>"

text \<open>A session driven by a list of \<open>addQuery\<close> calls, from its construction.\<close>

definition runSession ::
  "string \<Rightarrow> int \<Rightarrow> (structured_query \<times> string option \<times> int) list \<Rightarrow> conversation_context" where
  "runSession cid t0 calls =
     foldl (\<lambda>ctx (q, rid, now). addQuery ctx q rid now) (newConversationContext cid t0) calls"

subsection \<open>The conversation manager\<close>

text \<open>
  The \<open>Map\<close> of conversations keeps its keys in insertion order, which the clean-up
  iterates; it is an association list with distinct keys. \<open>set\<close> on a present key
  replaces the value in place, \<open>delete\<close> removes the entry.
\<close>

definition startsWith :: "string \<Rightarrow> string \<Rightarrow> bool" where
  "startsWith s p = prefix p s"

fun map_set :: "string \<Rightarrow> 'v \<Rightarrow> (string \<times> 'v) list \<Rightarrow> (string \<times> 'v) list" where
  "map_set k v [] = [(k, v)]"
| "map_set k v ((k', v') # m) = (if k' = k then (k, v) # m else (k', v') # map_set k v m)"

definition map_delete :: "string \<Rightarrow> (string \<times> 'v) list \<Rightarrow> (string \<times> 'v) list" where
  "map_delete k m = filter (\<lambda>(k', v). k' \<noteq> k) m"

record conversation_manager =
  conversations :: "(string \<times> conversation_context) list"
  maxConversationAge :: int
  maxConversationsPerUser :: nat

definition newConversationManager :: conversation_manager where
  "newConversationManager =
     \<lparr> conversations = [], maxConversationAge = 30 * 60 * 1000, maxConversationsPerUser = 5 \<rparr>"

record user_conversation =
  uc_key :: string
  uc_age :: int
  uc_conversation :: conversation_context

text \<open>
  \<open>cleanupOldConversations\<close>. The array \<open>userConversations\<close> is collected once, before
  anything is deleted. \<open>sort((a, b) => b.age - a.age)\<close> is a stable sort that puts the
  greater age first; \<open>slice(max)\<close> is what follows the first \<open>max\<close> elements.
\<close>

definition cleanupOldConversations ::
  "conversation_manager \<Rightarrow> string \<Rightarrow> int \<Rightarrow> conversation_manager" where
  "cleanupOldConversations mgr userId now =
     (let userConversations =
            map (\<lambda>(key, conv). \<lparr> uc_key = key, uc_age = now - startTime conv, uc_conversation = conv \<rparr>)
              (filter (\<lambda>(key, conv). startsWith key (userId @ '':'')) (conversations mgr));
          afterAge =
            foldl (\<lambda>m u. if uc_age u > maxConversationAge mgr then map_delete (uc_key u) m else m)
              (conversations mgr) userConversations;
          afterCap =
            (if length userConversations > maxConversationsPerUser mgr
             then foldl (\<lambda>m u. map_delete (uc_key u) m) afterAge
                    (drop (maxConversationsPerUser mgr)
                       (sort_key (\<lambda>u. - uc_age u) userConversations))
             else afterAge)
      in mgr \<lparr> conversations := afterCap \<rparr>)"

text \<open>
  \<open>getOrCreateConversation\<close>; \<open>now\<close> is the clock and \<open>newId\<close> the identifier that
  \<open>generateConversationId\<close> would draw; \<open>requestedId\<close> is the optional
  \<open>conversationId\<close> argument. The result is the store and the session returned.
\<close>

definition getOrCreateConversation ::
  "conversation_manager \<Rightarrow> string \<Rightarrow> string option \<Rightarrow> int \<Rightarrow> string
     \<Rightarrow> conversation_manager \<times> conversation_context" where
  "getOrCreateConversation mgr userId requestedId now newId =
     (let mgr1 = cleanupOldConversations mgr userId now;
          found = (case requestedId of
                     None \<Rightarrow> None
                   | Some cid \<Rightarrow> if cid = [] then None
                               else map_of (conversations mgr1) (userId @ '':'' @ cid))
      in case found of
           Some conv \<Rightarrow> (mgr1, conv)
         | None \<Rightarrow>
             (let newConversation = newConversationContext newId now;
                  key = userId @ '':'' @ conversationId newConversation
              in (mgr1 \<lparr> conversations := map_set key newConversation (conversations mgr1) \<rparr>,
                  newConversation)))"

definition getUserConversations :: "conversation_manager \<Rightarrow> string \<Rightarrow> conversation_summary list" where
  "getUserConversations mgr userId =
     map (\<lambda>(key, conv). getSummary conv)
       (filter (\<lambda>(key, conv). startsWith key (userId @ '':'')) (conversations mgr))"

text \<open>Sessions created one after the other for one user, each at its time with its identifier.\<close>

definition createSessions ::
  "conversation_manager \<Rightarrow> string \<Rightarrow> (int \<times> string) list \<Rightarrow> conversation_manager" where
  "createSessions mgr userId xs =
     foldl (\<lambda>m (t, cid). fst (getOrCreateConversation m userId None t cid)) mgr xs"

subsection \<open>Follow-up queries\<close>

text \<open>
  The test \<open>/\b(these|those|them|it|this|that)\b/i\<close>: a word boundary lies between a
  word character (letter, digit, underscore) and anything else, so the expression matches
  exactly when one of the maximal runs of word characters is one of the six words, letter
  case aside.
\<close>

definition isWordChar :: "char \<Rightarrow> bool" where
  "isWordChar c =
     (let n = (of_char c :: nat)
      in (48 \<le> n \<and> n \<le> 57) \<or> (65 \<le> n \<and> n \<le> 90) \<or> n = 95 \<or> (97 \<le> n \<and> n \<le> 122))"

fun wordTokens :: "string \<Rightarrow> string \<Rightarrow> string list" where
  "wordTokens cur [] = (if cur = [] then [] else [cur])"
| "wordTokens cur (c # cs) =
     (if isWordChar c then wordTokens (cur @ [c]) cs
      else (if cur = [] then [] else [cur]) @ wordTokens [] cs)"

definition toLowerChar :: "char \<Rightarrow> char" where
  "toLowerChar c =
     (let n = (of_char c :: nat) in if 65 \<le> n \<and> n \<le> 90 then char_of (n + 32) else c)"

definition toLowerCase :: "string \<Rightarrow> string" where
  "toLowerCase s = map toLowerChar s"

definition matchesReferentialTerm :: "string \<Rightarrow> bool" where
  "matchesReferentialTerm s =
     list_ex (\<lambda>w. List.member [''these'', ''those'', ''them'', ''it'', ''this'', ''that''] (toLowerCase w))
       (wordTokens [] s)"

definition missing_list :: "'a list option \<Rightarrow> bool" where
  "missing_list xs = (case xs of None \<Rightarrow> True | Some l \<Rightarrow> length l = 0)"

text \<open>
  \<open>isFollowUpQuery\<close>. Calling \<open>match\<close> on a query without text raises a \<open>TypeError\<close>.
\<close>

definition isFollowUpQuery :: "conversation_context \<Rightarrow> structured_query \<Rightarrow> js_error + bool" where
  "isFollowUpQuery ctx q =
     (case getLastQuery ctx of
        None \<Rightarrow> Inr False
      | Some lastQuery \<Rightarrow>
          if \<not> truthy (queryType q) \<and> truthy (h_queryType lastQuery) then Inr True
          else (case originalQuery q of
                  None \<Rightarrow> Inl TypeError
                | Some text \<Rightarrow>
                    if matchesReferentialTerm text then Inr True
                    else if locations (h_entities lastQuery) \<noteq> None
                            \<and> missing_list (locations (entities q)) then Inr True
                    else Inr False))"

definition processFollowUpQuery ::
  "structured_query \<Rightarrow> conversation_context \<Rightarrow> js_error + structured_query" where
  "processFollowUpQuery q ctx =
     (case isFollowUpQuery ctx q of
        Inl e \<Rightarrow> Inl e
      | Inr False \<Rightarrow> Inr q
      | Inr True \<Rightarrow>
          (case getLastQuery ctx of
             None \<Rightarrow> Inl TypeError
           | Some lastQuery \<Rightarrow>
               Inr (q \<lparr> queryType :=
                          (if \<not> truthy (queryType q) \<and> truthy (h_queryType lastQuery)
                           then h_queryType lastQuery else queryType q),
                        entities := (entities q)
                          \<lparr> locations :=
                              (if missing_list (locations (entities q))
                                  \<and> locations (h_entities lastQuery) \<noteq> None
                               then locations (h_entities lastQuery)
                               else locations (entities q)),
                            buildingTypes :=
                              (if missing_list (buildingTypes (entities q))
                                  \<and> buildingTypes (h_entities lastQuery) \<noteq> None
                               then buildingTypes (h_entities lastQuery)
                               else buildingTypes (entities q)),
                            timePeriods :=
                              (if missing_list (timePeriods (entities q))
                                  \<and> timePeriods (h_entities lastQuery) \<noteq> None
                               then timePeriods (h_entities lastQuery)
                               else timePeriods (entities q)) \<rparr> \<rparr>)))"

text \<open>\<open>incorporateConversationContext\<close> of nlp-service.js; the context is optional.\<close>

definition incorporateConversationContext ::
  "structured_query \<Rightarrow> conversation_context option \<Rightarrow> structured_query" where
  "incorporateConversationContext q context =
     (case context of
        None \<Rightarrow> q
      | Some ctx \<Rightarrow>
          (case getLastQuery ctx of
             None \<Rightarrow> q
           | Some previousQuery \<Rightarrow>
               q \<lparr> queryType :=
                     (if queryType q = None \<and> truthy (h_queryType previousQuery)
                      then h_queryType previousQuery else queryType q),
                   entities := (entities q)
                     \<lparr> locations :=
                         (if locations (entities q) = None
                             \<and> locations (h_entities previousQuery) \<noteq> None
                          then locations (h_entities previousQuery)
                          else locations (entities q)),
                       buildingTypes :=
                         (if buildingTypes (entities q) = None
                             \<and> buildingTypes (h_entities previousQuery) \<noteq> None
                          then buildingTypes (h_entities previousQuery)
                          else buildingTypes (entities q)) \<rparr> \<rparr>))"

text \<open>
  A field is populated when it is a non-empty list; a query is fully populated when it has
  a truthy intent and populated locations, building types and time periods.
\<close>

definition populated :: "'a list option \<Rightarrow> bool" where
  "populated xs = (case xs of None \<Rightarrow> False | Some l \<Rightarrow> l \<noteq> [])"

definition fullyPopulated :: "structured_query \<Rightarrow> bool" where
  "fullyPopulated q =
     (truthy (queryType q) \<and> populated (locations (entities q))
      \<and> populated (buildingTypes (entities q)) \<and> populated (timePeriods (entities q)))"

text \<open>
  \<open>resolvedFrom prev q q'\<close>: \<open>q'\<close> is \<open>q\<close> with some of the four context fields taken
  from the turn \<open>prev\<close>, and only fields that \<open>q\<close> had not populated.
\<close>

definition resolvedFrom :: "history_entry \<Rightarrow> structured_query \<Rightarrow> structured_query \<Rightarrow> bool" where
  "resolvedFrom prev q q' =
     ((queryType q' = queryType q \<or> (\<not> truthy (queryType q) \<and> queryType q' = h_queryType prev))
      \<and> (locations (entities q') = locations (entities q)
           \<or> (\<not> populated (locations (entities q))
               \<and> locations (entities q') = locations (h_entities prev)))
      \<and> (buildingTypes (entities q') = buildingTypes (entities q)
           \<or> (\<not> populated (buildingTypes (entities q))
               \<and> buildingTypes (entities q') = buildingTypes (h_entities prev)))
      \<and> (timePeriods (entities q') = timePeriods (entities q)
           \<or> (\<not> populated (timePeriods (entities q))
               \<and> timePeriods (entities q') = timePeriods (h_entities prev)))
      \<and> violationTypes (entities q') = violationTypes (entities q)
      \<and> propertyAttributes (entities q') = propertyAttributes (entities q)
      \<and> filters q' = filters q \<and> aggregations q' = aggregations q
      \<and> sortOrder q' = sortOrder q \<and> limit q' = limit q
      \<and> originalQuery q' = originalQuery q)"

text \<open>
  A sample session: one turn asking for risky buildings in Brooklyn; a query with every
  field populated; and the follow-up "What about Queens instead?", which names no intent.
\<close>

definition sampleContext :: conversation_context where
  "sampleContext =
     addQuery (newConversationContext ''conv_a'' 1000)
       \<lparr> queryType = Some ''risk_assessment'',
         entities = empty_entities \<lparr> locations := Some [''Brooklyn''] \<rparr>,
         filters = [], aggregations = [], sortOrder = None, limit = 100,
         originalQuery = Some ''Show me buildings in Brooklyn with a high risk'' \<rparr>
       None 2000"

definition sampleFullQuery :: structured_query where
  "sampleFullQuery =
     \<lparr> queryType = Some ''violation_search'',
       entities = empty_entities
         \<lparr> locations := Some [''Manhattan''], buildingTypes := Some [''residential''],
           timePeriods := Some [PeriodText ''2020''] \<rparr>,
       filters = [], aggregations = [], sortOrder = None, limit = 100,
       originalQuery = Some ''Which of these violations are open in Manhattan'' \<rparr>"

text \<open>
  The fully populated query without its text, as \<open>parseModelResponse\<close> builds it from a
  reply that has no property \<open>originalQuery\<close>; the prompt asks for none.
\<close>

definition sampleTextlessQuery :: structured_query where
  "sampleTextlessQuery = sampleFullQuery \<lparr> originalQuery := None \<rparr>"

definition sampleFollowUp :: structured_query where
  "sampleFollowUp =
     \<lparr> queryType = None,
       entities = empty_entities \<lparr> locations := Some [''Queens''] \<rparr>,
       filters = [], aggregations = [], sortOrder = None, limit = 100,
       originalQuery = Some ''What about Queens instead?'' \<rparr>"

section \<open>Query interpretation (nlp-service.js)\<close>

subsection \<open>Strings\<close>

text \<open>
  Strings are byte strings here; \<open>includesStr s sub\<close> is \<open>s.includes(sub)\<close>;
  \<open>toLowerCase\<close> and \<open>toUpperCase\<close> act on the ASCII
  letters, which is what they do on the borough names and key words the code looks for.
\<close>

definition toUpperChar :: "char \<Rightarrow> char" where
  "toUpperChar c =
     (let n = (of_char c :: nat) in if 97 \<le> n \<and> n \<le> 122 then char_of (n - 32) else c)"

fun includesStr :: "string \<Rightarrow> string \<Rightarrow> bool" where
  "includesStr [] sub = (sub = [])"
| "includesStr (c # cs) sub = (prefix sub (c # cs) \<or> includesStr cs sub)"

fun show_nat :: "nat \<Rightarrow> string" where
  "show_nat n =
     (if n < 10 then [char_of (48 + n)]
      else show_nat (n div 10) @ [char_of (48 + n mod 10)])"

definition show_int :: "int \<Rightarrow> string" where
  "show_int i = (if i < 0 then ''-'' @ show_nat (nat (- i)) else show_nat (nat i))"

subsection \<open>Normalisation\<close>

definition NYC_BOROUGHS :: "string list" where
  "NYC_BOROUGHS = [''manhattan'', ''brooklyn'', ''queens'', ''bronx'', ''staten island'']"

text \<open>\<open>s.charAt(0).toUpperCase() + s.slice(1)\<close>\<close>

definition capitalizeFirst :: "string \<Rightarrow> string" where
  "capitalizeFirst s = (case s of [] \<Rightarrow> [] | c # cs \<Rightarrow> toUpperChar c # cs)"

text \<open>The callback that \<open>validateAndNormalizeQuery\<close> maps over the locations.\<close>

definition normalizeLocation :: "string \<Rightarrow> string" where
  "normalizeLocation location =
     (case find (\<lambda>borough. includesStr (toLowerCase location) borough) NYC_BOROUGHS of
        Some boroughMatch \<Rightarrow> capitalizeFirst boroughMatch
      | None \<Rightarrow> location)"

text \<open>
  The callback mapped over the time periods. A period that is already an object has no
  \<open>toLowerCase\<close> method: \<open>TypeError\<close>.
\<close>

definition normalizePeriod :: "int \<Rightarrow> period \<Rightarrow> js_error + period" where
  "normalizePeriod currentYear p =
     (case p of
        PeriodRange s e \<Rightarrow> Inl TypeError
      | PeriodText t \<Rightarrow>
          if includesStr (toLowerCase t) ''last year''
          then Inr (PeriodRange (show_int (currentYear - 1) @ ''-01-01'')
                                (show_int (currentYear - 1) @ ''-12-31''))
          else if includesStr (toLowerCase t) ''past five years''
          then Inr (PeriodRange (show_int (currentYear - 5) @ ''-01-01'')
                                (show_int currentYear @ ''-12-31''))
          else Inr p)"

fun mapM :: "('a \<Rightarrow> js_error + 'b) \<Rightarrow> 'a list \<Rightarrow> js_error + 'b list" where
  "mapM f [] = Inr []"
| "mapM f (x # xs) =
     (case f x of
        Inl e \<Rightarrow> Inl e
      | Inr y \<Rightarrow> (case mapM f xs of Inl e \<Rightarrow> Inl e | Inr ys \<Rightarrow> Inr (y # ys)))"

definition validateAndNormalizeQuery :: "int \<Rightarrow> structured_query \<Rightarrow> js_error + structured_query" where
  "validateAndNormalizeQuery currentYear q =
     (let locs = map_option (map normalizeLocation) (locations (entities q))
      in case timePeriods (entities q) of
           None \<Rightarrow> Inr (q \<lparr> entities := (entities q) \<lparr> locations := locs \<rparr> \<rparr>)
         | Some ps \<Rightarrow>
             (case mapM (normalizePeriod currentYear) ps of
                Inl e \<Rightarrow> Inl e
              | Inr ps' \<Rightarrow>
                  Inr (q \<lparr> entities := (entities q) \<lparr> locations := locs, timePeriods := Some ps' \<rparr> \<rparr>)))"

subsection \<open>Parsing the reply of the Completion Service\<close>

text \<open>
  \<open>response.match(/\{[\s\S]*\}/)\<close>: the leftmost, longest match runs from the first
  opening brace to the last closing brace after it.
\<close>

definition extractJson :: "string \<Rightarrow> string option" where
  "extractJson response =
     (let fromBrace = dropWhile (\<lambda>c. c \<noteq> CHR ''{'') response;
          body = rev (dropWhile (\<lambda>c. c \<noteq> CHR ''}'') (rev fromBrace))
      in if body = [] then None else Some body)"

text \<open>
  What \<open>JSON.parse\<close> gives for the matched text, as far as \<open>parseModelResponse\<close> reads
  it: the seven properties, each absent or of the type the query has for it. The parser is
  the language's own; the functions below take it as the argument \<open>parse\<close>, with \<open>None\<close>
  for a \<open>SyntaxError\<close>.
\<close>

record parsed_response =
  p_queryType :: "string option"
  p_entities :: "entities option"
  p_filters :: "query_filter list option"
  p_aggregations :: "string option list option"
  p_sortOrder :: "string option"
  p_limit :: "int option"
  p_originalQuery :: "string option"

text \<open>The structure returned from the \<open>catch\<close> block of \<open>parseModelResponse\<close>.\<close>

definition minimalStructure :: "string option \<Rightarrow> structured_query" where
  "minimalStructure response =
     \<lparr> queryType = None, entities = empty_entities, filters = [], aggregations = [],
       sortOrder = None, limit = 100, originalQuery = response \<rparr>"

text \<open>
  \<open>parseModelResponse\<close>. The argument is the \<open>text\<close> of the first choice, absent when
  the choice has none (then \<open>response.match\<close> raises inside the \<open>try\<close>).
\<close>

definition parseModelResponse ::
  "(string \<Rightarrow> parsed_response option) \<Rightarrow> string option \<Rightarrow> structured_query" where
  "parseModelResponse parse response =
     (case response of
        None \<Rightarrow> minimalStructure response
      | Some r \<Rightarrow>
          (case extractJson r of
             None \<Rightarrow> minimalStructure response
           | Some jsonMatch \<Rightarrow>
               (case parse jsonMatch of
                  None \<Rightarrow> minimalStructure response
                | Some parsedResponse \<Rightarrow>
                    \<lparr> queryType = (if truthy (p_queryType parsedResponse)
                                   then p_queryType parsedResponse else None),
                      entities = (case p_entities parsedResponse of
                                    None \<Rightarrow> empty_entities | Some e \<Rightarrow> e),
                      filters = (case p_filters parsedResponse of None \<Rightarrow> [] | Some fs \<Rightarrow> fs),
                      aggregations = (case p_aggregations parsedResponse of
                                        None \<Rightarrow> [] | Some as \<Rightarrow> as),
                      sortOrder = (if truthy (p_sortOrder parsedResponse)
                                   then p_sortOrder parsedResponse else None),
                      limit = (case p_limit parsedResponse of
                                 None \<Rightarrow> 100 | Some n \<Rightarrow> if n = 0 then 100 else n),
                      originalQuery = p_originalQuery parsedResponse \<rparr>)))"

text \<open>
  The outcome of awaiting the Completion Service: the call is rejected (time-out, network
  or service error), or it resolves with the list of choices, each with its optional text.
\<close>

datatype completion = Rejected | Resolved "string option list"

text \<open>
  \<open>processQuery\<close>. The user's text goes into the prompt only; the result is computed
  from the completion. Whatever is raised inside the \<open>try\<close> is raised again as the one
  error \<open>Failed to process natural language query\<close>.
\<close>

definition processQuery ::
  "(string \<Rightarrow> parsed_response option) \<Rightarrow> int \<Rightarrow> string \<Rightarrow> conversation_context option
     \<Rightarrow> completion \<Rightarrow> js_error + structured_query" where
  "processQuery parse currentYear query conversationContext outcome =
     (case outcome of
        Rejected \<Rightarrow> Inl ProcessingError
      | Resolved [] \<Rightarrow> Inl ProcessingError
      | Resolved (reply # others) \<Rightarrow>
          (let structuredQuery = parseModelResponse parse reply
           in case validateAndNormalizeQuery currentYear structuredQuery of
                Inl e \<Rightarrow> Inl ProcessingError
              | Inr validatedQuery \<Rightarrow>
                  Inr (incorporateConversationContext validatedQuery conversationContext)))"

text \<open>
  No well-formed payload can be extracted from a reply: it has no text, or the text has no
  brace-delimited part, or the parser rejects that part.
\<close>

definition noPayload :: "(string \<Rightarrow> parsed_response option) \<Rightarrow> string option \<Rightarrow> bool" where
  "noPayload parse reply =
     (case reply of
        None \<Rightarrow> True
      | Some r \<Rightarrow> (case extractJson r of None \<Rightarrow> True | Some jsonMatch \<Rightarrow> parse jsonMatch = None))"

text \<open>A parser that rejects every text, for replies in which no text is ever handed to it.\<close>

definition neverParses :: "string \<Rightarrow> parsed_response option" where
  "neverParses j = None"

text \<open>A session without an earlier turn, or no session at all.\<close>

definition noHistory :: "conversation_context option \<Rightarrow> bool" where
  "noHistory c = (case c of None \<Rightarrow> True | Some ctx \<Rightarrow> previousQueries ctx = [])"

section \<open>Query compilation (the query builder in nlp-service.js)\<close>





text \<open>\<open>xs.join(sep)\<close>\<close>

fun join :: "string \<Rightarrow> string list \<Rightarrow> string" where
  "join sep [] = []"
| "join sep [x] = x"
| "join sep (x # y # ys) = x @ sep @ join sep (y # ys)"






subsection \<open>Reading a compiled query back\<close>







section \<open>Query compilation in the retrieval service (data-retrieval-service.js)\<close>









text \<open>A value as a template literal writes it: an array as its elements between commas.\<close>

fun toText :: "jsval \<Rightarrow> string" where
  "toText (JStr s) = s"
| "toText (JNum n) = show_int n"
| "toText (JArr vs) = join '','' (map toText vs)"

text \<open>\<open>`${value[i]}`\<close> for an array value: \<open>undefined\<close> beyond its end.\<close>

definition elementText :: "jsval list \<Rightarrow> nat \<Rightarrow> string" where
  "elementText vs i = (if i < length vs then toText (vs ! i) else ''undefined'')"

text \<open>
  The callback that \<open>retrieveGeneralData\<close> maps over the filters of the main table:
  \<open>None\<close> is its \<open>null\<close>, for any operator but the three.
\<close>

definition postgrestFilter :: "query_filter \<Rightarrow> string option" where
  "postgrestFilter f =
     (if f_operator f = ''='' then Some (f_column f @ ''.eq.'' @ toText (f_value f))
      else if f_operator f = ''LIKE'' then Some (f_column f @ ''.like.'' @ toText (f_value f))
      else (case f_value f of
              JArr vs \<Rightarrow>
                if f_operator f = ''BETWEEN''
                then Some (''and=('' @ f_column f @ ''.gte.'' @ elementText vs 0 @ '',''
                           @ f_column f @ ''.lte.'' @ elementText vs 1 @ '')'')
                else None
            | _ \<Rightarrow> None))"






section \<open>Statistical analysis (the data-analysis service)\<close>

text \<open>
  Numbers are IEEE 754 doubles. A finite one is kept as the rational number it is; a
  quotient or a product is the exact result rounded to the nearest double, to the one
  with an even significand at a tie. \<open>ilog2 x\<close> is the exponent \<open>e\<close> of a positive \<open>x\<close>,
  the one with \<open>2 powi e \<le> x < 2 powi (e + 1)\<close>, and a double with that exponent is a
  multiple of \<open>2 powi (e - 52)\<close>. Overflow and subnormal numbers stay out: the quotients
  of two counts below \<open>2 ^ 53\<close> and their hundredfold are far from both.
\<close>

definition ilog2 :: "rat \<Rightarrow> int" where
  "ilog2 x =
     (let (p, q) = quotient_of x;
          k = bitlen p - bitlen q
      in if 2 powi k \<le> x then k else k - 1)"

definition roundHalfEven :: "rat \<Rightarrow> int" where
  "roundHalfEven m =
     (let r = \<lfloor>m\<rfloor>; f = m - of_int r
      in if f < 1 / 2 then r
         else if 1 / 2 < f then r + 1
         else if even r then r else r + 1)"

definition roundToDouble :: "rat \<Rightarrow> rat" where
  "roundToDouble x =
     (if x = 0 then 0
      else (let ulp = 2 powi (ilog2 \<bar>x\<bar> - 52)
            in sgn x * of_int (roundHalfEven (\<bar>x\<bar> / ulp)) * ulp))"

text \<open>
  Quotients of counts. Dividing by zero does not raise in JavaScript: \<open>0 / 0\<close> is
  \<open>NaN\<close> and \<open>n / 0\<close> is \<open>Infinity\<close> for \<open>n > 0\<close>. \<open>x.toFixed(1)\<close> gives the decimal
  string with one fractional digit nearest to the double \<open>x\<close>, at a tie the one farther
  from zero, and the strings \<open>NaN\<close> and \<open>Infinity\<close> for those two; the string is
  represented by the number it denotes, and \<open>parseFloat\<close> reads a double back from it
  that compares with a whole number as that number does.
\<close>

datatype jsnum = Finite rat | PosInfinity | NotANumber

definition js_div :: "nat \<Rightarrow> nat \<Rightarrow> jsnum" where
  "js_div a b =
     (if b = 0 then (if a = 0 then NotANumber else PosInfinity)
      else Finite (roundToDouble (of_nat a / of_nat b)))"

definition js_times :: "jsnum \<Rightarrow> rat \<Rightarrow> jsnum" where
  "js_times x c = (case x of Finite r \<Rightarrow> Finite (roundToDouble (r * c))
                   | PosInfinity \<Rightarrow> PosInfinity | NotANumber \<Rightarrow> NotANumber)"

definition toFixed1 :: "jsnum \<Rightarrow> jsnum" where
  "toFixed1 x =
     (case x of
        Finite r \<Rightarrow>
          Finite (if r < 0 then - (of_int \<lfloor>- r * 10 + 1 / 2\<rfloor> / 10)
                  else of_int \<lfloor>r * 10 + 1 / 2\<rfloor> / 10)
      | PosInfinity \<Rightarrow> PosInfinity
      | NotANumber \<Rightarrow> NotANumber)"


text \<open>
  \<open>((count / total) * 100).toFixed(1)\<close>, the percentage of every routine: the quotient
  is rounded to a double, its hundredfold is rounded again, and \<open>toFixed\<close> reads the
  double that results.
\<close>

definition percentage :: "nat \<Rightarrow> nat \<Rightarrow> jsnum" where
  "percentage n whole = toFixed1 (js_times (js_div n whole) 100)"

text \<open>
  A row as \<open>analyzeRiskData\<close> reads it. An absent property is \<open>None\<close>; an empty string
  and the year 0 are falsy like an absent one.
\<close>

record risk_row =
  r_address :: "string option"
  r_borough :: "string option"
  r_bldgclass :: "string option"
  r_yearbuilt :: "int option"
  r_risk_score :: rat
  r_risk_level :: "string option"

text \<open>
  An object used as a table of counts: its keys in the order of their first insertion,
  which is the order in which \<open>Object.entries\<close> lists keys that are not integer numerals
  (risk levels, borough names, age ranges and building classes are not).
  \<open>increment k counts\<close> is \<open>counts[k] = (counts[k] || 0) + 1\<close>.
\<close>

fun increment :: "string \<Rightarrow> (string \<times> nat) list \<Rightarrow> (string \<times> nat) list" where
  "increment k [] = [(k, 1)]"
| "increment k ((k', n) # m) = (if k' = k then (k', n + 1) # m else (k', n) # increment k m)"

definition orUnknown :: "string option \<Rightarrow> string" where
  "orUnknown s = (if truthy s then (case s of Some t \<Rightarrow> t | None \<Rightarrow> []) else ''Unknown'')"

record common_factor =
  cf_factor :: string
  cf_value :: string
  cf_count :: nat
  cf_percentage :: jsnum

record risk_analysis =
  riskLevelCounts :: "(string \<times> nat) list option"
  totalBuildings :: "nat option"
  riskLevelPercentages :: "(string \<times> jsnum) list option"
  commonFactors :: "common_factor list option"
  topRiskBuildings :: "risk_row list"
  riskDistribution :: "(string \<times> nat) list option"
  riskByBorough :: "(string \<times> nat) list option"
  riskByBuildingAge :: "(string \<times> nat) list option"

text \<open>The \<open>results\<close> object as it is initialised: empty statistics, no building.\<close>

definition emptyRiskAnalysis :: risk_analysis where
  "emptyRiskAnalysis =
     \<lparr> riskLevelCounts = None, totalBuildings = None, riskLevelPercentages = None,
       commonFactors = None, topRiskBuildings = [],
       riskDistribution = None, riskByBorough = None, riskByBuildingAge = None \<rparr>"

definition ageRange :: "int \<Rightarrow> string" where
  "ageRange yearBuilt =
     (if yearBuilt < 1900 then ''Pre-1900''
      else if yearBuilt \<le> 1950 then ''1900-1950''
      else if yearBuilt \<le> 1980 then ''1951-1980''
      else if yearBuilt \<le> 2000 then ''1981-2000''
      else ''Post-2000'')"

definition countAges :: "risk_row list \<Rightarrow> (string \<times> nat) list" where
  "countAges rows =
     foldl (\<lambda>ageCounts building.
              case r_yearbuilt building of
                None \<Rightarrow> ageCounts
              | Some y \<Rightarrow> if y = 0 then ageCounts else increment (ageRange y) ageCounts)
       [(''Pre-1900'', 0), (''1900-1950'', 0), (''1951-1980'', 0), (''1981-2000'', 0),
        (''Post-2000'', 0)]
       rows"

text \<open>
  \<open>analyzeRiskData\<close>; the argument is \<open>retrievedData.data\<close>, \<open>None\<close> when it is missing
  or not an array. \<open>sort\<close> sorts the array of high-risk buildings in place, so the counts
  that follow run over the sorted array.
\<close>

definition analyzeRiskData :: "risk_row list option \<Rightarrow> risk_analysis" where
  "analyzeRiskData retrieved =
     (case retrieved of
        None \<Rightarrow> emptyRiskAnalysis
      | Some data \<Rightarrow>
          (let levelCounts =
                 foldl (\<lambda>counts building.
                          if truthy (r_risk_level building)
                          then increment (orUnknown (r_risk_level building)) counts
                          else counts)
                   [(''High'', 0), (''Medium'', 0), (''Low'', 0), (''Minimal'', 0)] data;
               levelPercentages =
                 map (\<lambda>(level, n). (level, percentage n (length data))) levelCounts;
               highRiskBuildings =
                 sort_key (\<lambda>b. - r_risk_score b)
                   (filter (\<lambda>building. r_risk_level building = Some ''High'') data);
               results =
                 emptyRiskAnalysis
                   \<lparr> riskLevelCounts := Some levelCounts,
                     totalBuildings := Some (length data),
                     riskLevelPercentages := Some levelPercentages,
                     riskDistribution := Some levelCounts,
                     topRiskBuildings := highRiskBuildings \<rparr>
           in if length highRiskBuildings > 0
              then
                (let boroughCounts =
                       foldl (\<lambda>counts building. increment (orUnknown (r_borough building)) counts)
                         [] highRiskBuildings;
                     ageCounts = countAges highRiskBuildings;
                     buildingClassCounts =
                       foldl (\<lambda>counts building. increment (orUnknown (r_bldgclass building)) counts)
                         [] highRiskBuildings;
                     factorOf = (\<lambda>name (v, n).
                        \<lparr> cf_factor = name, cf_value = v, cf_count = n,
                          cf_percentage = percentage n (length highRiskBuildings) \<rparr>)
                 in results
                      \<lparr> commonFactors :=
                          Some (map (factorOf ''Borough'') boroughCounts
                                @ map (factorOf ''Age Range'') (filter (\<lambda>(v, n). n > 0) ageCounts)
                                @ map (factorOf ''Building Class'')
                                    (filter (\<lambda>(v, n). n > 0) buildingClassCounts)),
                        riskByBorough := Some boroughCounts,
                        riskByBuildingAge := Some ageCounts \<rparr>)
              else results))"

section \<open>Pattern detection (the pattern-detection service)\<close>

















section \<open>Narrative generation (the insight generator)\<close>

text \<open>
  A text is held as the bytes of its UTF-8 encoding. The white space that \<open>trim\<close>
  removes and \<open>\s\<close> matches is the white space and the line terminators of the
  language: tab, line feed, vertical tab, form feed, carriage return, space, and, beyond
  ASCII, U+00A0, U+1680, U+2000 to U+200A, U+2028, U+2029, U+202F, U+205F, U+3000 and
  U+FEFF, each listed here by its bytes.
\<close>

definition whiteSpaceCodes :: "string list" where
  "whiteSpaceCodes =
     [[CHR 0x09], [CHR 0x0A], [CHR 0x0B], [CHR 0x0C], [CHR 0x0D], [CHR 0x20],
      [CHR 0xC2, CHR 0xA0], [CHR 0xE1, CHR 0x9A, CHR 0x80], [CHR 0xE2, CHR 0x80, CHR 0x80],
      [CHR 0xE2, CHR 0x80, CHR 0x81], [CHR 0xE2, CHR 0x80, CHR 0x82],
      [CHR 0xE2, CHR 0x80, CHR 0x83], [CHR 0xE2, CHR 0x80, CHR 0x84],
      [CHR 0xE2, CHR 0x80, CHR 0x85], [CHR 0xE2, CHR 0x80, CHR 0x86],
      [CHR 0xE2, CHR 0x80, CHR 0x87], [CHR 0xE2, CHR 0x80, CHR 0x88],
      [CHR 0xE2, CHR 0x80, CHR 0x89], [CHR 0xE2, CHR 0x80, CHR 0x8A],
      [CHR 0xE2, CHR 0x80, CHR 0xA8], [CHR 0xE2, CHR 0x80, CHR 0xA9],
      [CHR 0xE2, CHR 0x80, CHR 0xAF], [CHR 0xE2, CHR 0x81, CHR 0x9F],
      [CHR 0xE3, CHR 0x80, CHR 0x80], [CHR 0xEF, CHR 0xBB, CHR 0xBF]]"

text \<open>
  The number of bytes of the white-space character at the head of a text, 0 when there
  is none; and the same for a text read backwards, from its end.
\<close>

definition spaceAt :: "string \<Rightarrow> nat" where
  "spaceAt s =
     (case find (\<lambda>code. take (length code) s = code) whiteSpaceCodes of
        None \<Rightarrow> 0 | Some code \<Rightarrow> length code)"

definition spaceBefore :: "string \<Rightarrow> nat" where
  "spaceBefore s =
     (case find (\<lambda>code. take (length code) s = rev code) whiteSpaceCodes of
        None \<Rightarrow> 0 | Some code \<Rightarrow> length code)"

text \<open>
  The number of bytes of the longest run of white space at the head of a text; \<open>skip\<close>
  counts the bytes of a character still to be passed over.
\<close>

fun spaceRun :: "(string \<Rightarrow> nat) \<Rightarrow> nat \<Rightarrow> string \<Rightarrow> nat" where
  "spaceRun space skip [] = 0"
| "spaceRun space skip (c # cs) =
     (if skip > 0 then 1 + spaceRun space (skip - 1) cs
      else if space (c # cs) > 0 then 1 + spaceRun space (space (c # cs) - 1) cs
      else 0)"

definition trim :: "string \<Rightarrow> string" where
  "trim s =
     (let fromStart = drop (spaceRun spaceAt 0 s) s;
          backwards = rev fromStart
      in rev (drop (spaceRun spaceBefore 0 backwards) backwards))"

subsection \<open>Extracting findings and explanations from the text\<close>

text \<open>
  The two extractors scan the text with regular expressions; each scan is written out as
  the function on strings that the expression denotes. Letter case is ignored where the
  expression has the flag \<open>i\<close>; \<open>\s\<close> is the white space that \<open>trim\<close> removes.
\<close>

definition startsWithCI :: "string \<Rightarrow> string \<Rightarrow> bool" where
  "startsWithCI s word = (toLowerCase (take (length word) s) = word)"

definition isDigit :: "char \<Rightarrow> bool" where
  "isDigit c = (let n = (of_char c :: nat) in 48 \<le> n \<and> n \<le> 57)"

text \<open>What follows the first occurrence, in any letter case, of a lower-case word.\<close>

fun afterFirst :: "string \<Rightarrow> string \<Rightarrow> string option" where
  "afterFirst word [] = (if word = [] then Some [] else None)"
| "afterFirst word (c # cs) =
     (if startsWithCI (c # cs) word then Some (drop (length word) (c # cs))
      else afterFirst word cs)"

text \<open>\<open>([\s\S]*?)(?:\n\n|$)\<close>: the text up to the first empty line, or all of it.\<close>

fun untilBlankLine :: "string \<Rightarrow> string" where
  "untilBlankLine (a # b # cs) =
     (if a = CHR 0x0A \<and> b = CHR 0x0A then [] else a # untilBlankLine (b # cs))"
| "untilBlankLine cs = cs"

text \<open>
  \<open>s.split(separator)\<close> for a separator given by the length of its match at the head of
  a string (0 for no match): the pieces between the matches, found from left to right.
  \<open>skip\<close> counts the characters of a match still to be passed over.
\<close>

fun splitBy :: "(string \<Rightarrow> nat) \<Rightarrow> string \<Rightarrow> nat \<Rightarrow> string \<Rightarrow> string list" where
  "splitBy sep cur skip [] = [cur]"
| "splitBy sep cur skip (c # cs) =
     (if skip > 0 then splitBy sep cur (skip - 1) cs
      else if sep (c # cs) > 0 then cur # splitBy sep [] (sep (c # cs) - 1) cs
      else splitBy sep (cur @ [c]) 0 cs)"

text \<open>\<open>/\n-|\n\d+\./\<close>: a line break and a dash, or a line break, digits and a full stop.\<close>

definition itemSeparator :: "string \<Rightarrow> nat" where
  "itemSeparator s =
     (case s of
        [] \<Rightarrow> 0
      | c # cs \<Rightarrow>
          if c \<noteq> CHR 0x0A then 0
          else if take 1 cs = ''-'' then 2
          else (let digits = takeWhile isDigit cs
                in if digits \<noteq> [] \<and> take 1 (drop (length digits) cs) = ''.''
                   then 2 + length digits else 0))"

text \<open>\<open>/\.\s+/\<close>: a full stop and the white space after it.\<close>

definition sentenceSeparator :: "string \<Rightarrow> nat" where
  "sentenceSeparator s =
     (case s of
        [] \<Rightarrow> 0
      | c # cs \<Rightarrow>
          if c = CHR ''.'' \<and> spaceRun spaceAt 0 cs > 0 then 1 + spaceRun spaceAt 0 cs
          else 0)"

definition extractKeyFindings :: "string \<Rightarrow> string list" where
  "extractKeyFindings insights =
     (let findingsMatch =
            (case afterFirst ''key findings'' insights of
               None \<Rightarrow> None
             | Some rest \<Rightarrow>
                 Some (untilBlankLine (if take 1 rest = '':'' then drop 1 rest else rest)))
      in case (case findingsMatch of None \<Rightarrow> None | Some g \<Rightarrow> if g = [] then None else Some g) of
           Some g \<Rightarrow> filter (\<lambda>item. item \<noteq> []) (map trim (splitBy itemSeparator [] 0 g))
         | None \<Rightarrow>
             map (\<lambda>sentence. trim sentence @ ''.'')
               (filter (\<lambda>sentence. includesStr sentence ''significant''
                                   \<or> includesStr sentence ''notable''
                                   \<or> includesStr sentence ''important''
                                   \<or> includesStr sentence ''found that'')
                  (splitBy sentenceSeparator [] 0 insights)))"

text \<open>
  \<open>/(?:because|due to|explained by|result of|caused by)([^.]+)/gi\<close>: one of the five
  phrases and at least one character after it, up to the next full stop; the length of
  the match at the head of a string, 0 for none.
\<close>

definition explanationMatch :: "string \<Rightarrow> nat" where
  "explanationMatch s =
     (case find (startsWithCI s)
             [''because'', ''due to'', ''explained by'', ''result of'', ''caused by''] of
        None \<Rightarrow> 0
      | Some phrase \<Rightarrow>
          (let body = takeWhile (\<lambda>c. c \<noteq> CHR ''.'') (drop (length phrase) s)
           in if body = [] then 0 else length phrase + length body))"

text \<open>All matches of a global expression, from left to right, none overlapping another.\<close>

fun matchAll :: "(string \<Rightarrow> nat) \<Rightarrow> nat \<Rightarrow> string \<Rightarrow> string list" where
  "matchAll m skip [] = []"
| "matchAll m skip (c # cs) =
     (if skip > 0 then matchAll m (skip - 1) cs
      else if m (c # cs) > 0 then take (m (c # cs)) (c # cs) # matchAll m (m (c # cs) - 1) cs
      else matchAll m 0 cs)"

definition extractExplanations :: "string \<Rightarrow> string list" where
  "extractExplanations insights = map trim (matchAll explanationMatch 0 insights)"

subsection \<open>The narrative\<close>

record narrative_insights =
  summary :: string
  keyFindings :: "string list"
  explanations :: "string list"
  confidence :: rat

text \<open>The object returned from the \<open>catch\<close> block.\<close>

definition fallbackInsights :: narrative_insights where
  "fallbackInsights =
     \<lparr> summary = ''Unable to generate insights due to an error.'',
       keyFindings = [], explanations = [], confidence = 0 \<rparr>"

text \<open>
  \<open>generateNarrativeInsights\<close>, the same in both services that define it. The prompt is
  assembled and the Completion Service awaited inside the \<open>try\<close>; the argument is the
  outcome of that, \<open>Rejected\<close> for anything raised up to there. Reading
  \<open>completion.data.choices[0].text.trim()\<close> raises when there is no first choice or it
  has no text.
\<close>

definition generateNarrativeInsights :: "completion \<Rightarrow> narrative_insights" where
  "generateNarrativeInsights outcome =
     (case outcome of
        Rejected \<Rightarrow> fallbackInsights
      | Resolved [] \<Rightarrow> fallbackInsights
      | Resolved (None # others) \<Rightarrow> fallbackInsights
      | Resolved (Some t # others) \<Rightarrow>
          (let insights = trim t
           in \<lparr> summary = insights,
                keyFindings = extractKeyFindings insights,
                explanations = extractExplanations insights,
                confidence = 85 / 100 \<rparr>))"

text \<open>
  What raises inside the \<open>try\<close> block: the call is rejected (time-out or error), the
  completion has no choice, or its first choice has no text. A first choice with a text
  does not raise, whatever the text, the empty one included.
\<close>

definition raisesInTry :: "completion \<Rightarrow> bool" where
  "raisesInTry outcome =
     (case outcome of
        Rejected \<Rightarrow> True
      | Resolved [] \<Rightarrow> True
      | Resolved (None # others) \<Rightarrow> True
      | Resolved (Some t # others) \<Rightarrow> False)"


section \<open>Risk scoring: results\<close>

lemma Math_round_of_int: "Math_round (of_int n) = n"
  by (simp add: Math_round_def) linarith

lemma age_score_eq: "calculateBuildingAgeScore y yb = spec_ageScore (y - yb)"
proof -
  have "of_int (y - yb - 10) * (90 / 90) + (10::rat) = of_int (y - yb)"
    by simp
  then show ?thesis
    unfolding calculateBuildingAgeScore_def spec_ageScore_def Let_def
    by (simp only: Math_round_of_int) simp
qed

lemma violation_score_eq: "calculateViolationScore n = spec_violationScore n"
proof -
  have "of_int n * (5::rat) = of_int (n * 5)" by simp
  then have "Math_round (of_int n * 5) = n * 5"
    by (simp only: Math_round_of_int)
  then show ?thesis
    by (simp add: calculateViolationScore_def spec_violationScore_def)
qed

lemma risk_level_eq: "getRiskLevel s = level_name (spec_riskLevel s)"
  by (simp add: getRiskLevel_def spec_riskLevel_def)

text \<open>
  C1. Every row scored by the risk-assessment pipeline carries the age score, violation
  score, risk score and risk level of the reference definition, where the age is the
  current year minus the year built; the two sample values are 5 for a 5-year-old
  building without violations and 100 for a 150-year-old building with 25 violations.
\<close>

theorem risk_score_matches_reference:
  "age_score (scoreBuilding y b) = spec_ageScore (y - yearbuilt b)
   \<and> violation_score (scoreBuilding y b) = spec_violationScore (total_violations b)
   \<and> risk_score (scoreBuilding y b) = spec_riskScore (y - yearbuilt b) (total_violations b)
   \<and> risk_level (scoreBuilding y b)
       = level_name (spec_riskLevel (spec_riskScore (y - yearbuilt b) (total_violations b)))
   \<and> fst (transformRiskAssessmentData y rows) = map (scoreBuilding y) rows
   \<and> risk_score (scoreBuilding y (b\<lparr>yearbuilt := y - 5, total_violations := 0\<rparr>)) = 5
   \<and> risk_score (scoreBuilding y (b\<lparr>yearbuilt := y - 150, total_violations := 25\<rparr>)) = 100"
  by (simp add: scoreBuilding_def Let_def building.defs age_score_eq violation_score_eq
      risk_level_eq spec_riskScore_def transformRiskAssessmentData_def
      spec_ageScore_def spec_violationScore_def)

section \<open>Conversation state: results\<close>

lemma addQuery_counts:
  "length (previousQueries (addQuery ctx q rid now)) = Suc (length (previousQueries ctx))
   \<and> messageCount (addQuery ctx q rid now) = Suc (messageCount ctx)"
  by (simp add: addQuery_def)

lemma foldl_addQuery_inv:
  "messageCount ctx = length (previousQueries ctx) \<Longrightarrow>
   messageCount (foldl (\<lambda>c (q, rid, now). addQuery c q rid now) ctx calls)
     = length (previousQueries (foldl (\<lambda>c (q, rid, now). addQuery c q rid now) ctx calls))"
proof (induction calls arbitrary: ctx)
  case Nil
  then show ?case by simp
next
  case (Cons call calls)
  obtain q rid now where call: "call = (q, rid, now)"
    by (cases call) auto
  have "messageCount (addQuery ctx q rid now) = length (previousQueries (addQuery ctx q rid now))"
    using Cons.prems by (simp add: addQuery_counts)
  from Cons.IH [OF this] show ?case
    by (simp add: call)
qed

text \<open>
  C10. The message count of a conversation equals the length of its history: both are
  zero on construction, every \<open>addQuery\<close> appends one entry and adds one to the count,
  the read-only operations leave the session as it is, and so the equality holds after
  any sequence of calls.
\<close>

theorem messageCount_eq_history_length:
  "messageCount (newConversationContext cid t0) = 0
   \<and> previousQueries (newConversationContext cid t0) = []
   \<and> length (previousQueries (addQuery ctx q rid now)) = length (previousQueries ctx) + 1
   \<and> butlast (previousQueries (addQuery ctx q rid now)) = previousQueries ctx
   \<and> messageCount (addQuery ctx q rid now) = messageCount ctx + 1
   \<and> messageCount (runSession cid t0 calls) = length (previousQueries (runSession cid t0 calls))
   \<and> messageCount (runSession cid t0 calls) = length calls
   \<and> s_messageCount (getSummary (runSession cid t0 calls))
       = length (s_queryHistory (getSummary (runSession cid t0 calls)))"
proof -
  have inv: "messageCount (runSession cid t0 calls) = length (previousQueries (runSession cid t0 calls))"
    unfolding runSession_def
    by (rule foldl_addQuery_inv) (simp add: newConversationContext_def)
  have len: "messageCount (foldl (\<lambda>c (q, rid, now). addQuery c q rid now) c0 cs)
      = messageCount c0 + length cs" for c0 cs
    by (induction cs arbitrary: c0) (auto simp: addQuery_counts)
  have cnt: "messageCount (runSession cid t0 calls) = length calls"
    unfolding runSession_def by (simp add: len newConversationContext_def)
  show ?thesis
    using inv cnt by (simp add: newConversationContext_def addQuery_def getSummary_def)
qed

section \<open>Session eviction: results\<close>

text \<open>
  The first step of the clean-up does what it is meant to do: after it, no session of the
  user that is older than the maximal age is left in the store.
\<close>

lemma set_map_delete: "set (map_delete k m) = {e \<in> set m. fst e \<noteq> k}"
  by (auto simp: map_delete_def)

lemma foldl_delete_if:
  "set (foldl (\<lambda>m u. if P u then map_delete (uc_key u) m else m) m0 us)
     = {e \<in> set m0. \<not> (\<exists>u \<in> set us. P u \<and> uc_key u = fst e)}"
proof (induction us arbitrary: m0)
  case Nil
  then show ?case by simp
next
  case (Cons u us)
  show ?case
    by (auto simp: Cons.IH set_map_delete)
qed

lemma foldl_delete_subset:
  "set (foldl (\<lambda>m u. map_delete (uc_key u) m) m0 us) \<subseteq> set m0"
proof (induction us arbitrary: m0)
  case Nil
  then show ?case by simp
next
  case (Cons u us)
  have "set (foldl (\<lambda>m u. map_delete (uc_key u) m) (map_delete (uc_key u) m0) us)
          \<subseteq> set (map_delete (uc_key u) m0)"
    by (rule Cons.IH)
  then show ?case by (auto simp: set_map_delete)
qed

lemma cleanup_drops_expired:
  assumes "(key, conv) \<in> set (conversations (cleanupOldConversations mgr userId now))"
    and "startsWith key (userId @ '':'')"
  shows "now - startTime conv \<le> maxConversationAge mgr"
proof -
  define ucs where "ucs =
    map (\<lambda>(key, conv). \<lparr> uc_key = key, uc_age = now - startTime conv, uc_conversation = conv \<rparr>)
      (filter (\<lambda>(key, conv). startsWith key (userId @ '':'')) (conversations mgr))"
  define afterAge where "afterAge =
    foldl (\<lambda>m u. if uc_age u > maxConversationAge mgr then map_delete (uc_key u) m else m)
      (conversations mgr) ucs"
  have "set (conversations (cleanupOldConversations mgr userId now)) \<subseteq> set afterAge"
    unfolding cleanupOldConversations_def Let_def afterAge_def ucs_def
    using foldl_delete_subset by auto
  with assms(1) have "(key, conv) \<in> set afterAge" by blast
  then have mem: "(key, conv) \<in> set (conversations mgr)"
    and keep: "\<not> (\<exists>u \<in> set ucs. uc_age u > maxConversationAge mgr \<and> uc_key u = key)"
    unfolding afterAge_def foldl_delete_if by auto
  have "\<lparr> uc_key = key, uc_age = now - startTime conv, uc_conversation = conv \<rparr> \<in> set ucs"
    unfolding ucs_def using mem assms(2) by force
  with keep show ?thesis by force
qed

text \<open>
  C3. Six sessions of one user, created a second apart, then \<open>getOrCreateConversation\<close>
  for the first of them: the clean-up sorts the six by age, oldest first, and deletes what
  follows the first five, which is the newest session. The five oldest remain. When the
  call names no session, a seventh is created after the clean-up and six are listed.
\<close>

theorem eviction_drops_newest_session:
  "map s_conversationId (getUserConversations (fst (getOrCreateConversation
       (createSessions newConversationManager ''u''
          [(1000, ''c1''), (2000, ''c2''), (3000, ''c3''), (4000, ''c4''), (5000, ''c5''), (6000, ''c6'')])
       ''u'' (Some ''c1'') 7000 ''c7'')) ''u'')
     = [''c1'', ''c2'', ''c3'', ''c4'', ''c5'']
   \<and> map s_conversationId (getUserConversations (fst (getOrCreateConversation
       (createSessions newConversationManager ''u''
          [(1000, ''c1''), (2000, ''c2''), (3000, ''c3''), (4000, ''c4''), (5000, ''c5''), (6000, ''c6'')])
       ''u'' None 7000 ''c7'')) ''u'')
     = [''c1'', ''c2'', ''c3'', ''c4'', ''c5'', ''c7'']"
  by code_simp

section \<open>Follow-up resolution: results\<close>

lemma missing_not_populated: "missing_list xs \<Longrightarrow> \<not> populated xs"
  by (cases xs) (auto simp: missing_list_def populated_def)

lemma populated_not_missing: "populated xs \<Longrightarrow> \<not> missing_list xs"
  by (cases xs) (auto simp: missing_list_def populated_def)

lemma populated_not_None: "populated xs \<Longrightarrow> xs \<noteq> None"
  by (cases xs) (auto simp: populated_def)

lemma pick_missing:
  "(if missing_list a \<and> b \<noteq> None then b else a) = a
   \<or> (\<not> populated a \<and> (if missing_list a \<and> b \<noteq> None then b else a) = b)"
  by (simp add: missing_not_populated)

lemma pick_falsy:
  "(if \<not> truthy a \<and> truthy b then b else a) = a
   \<or> (\<not> truthy a \<and> (if \<not> truthy a \<and> truthy b then b else a) = b)"
  by simp

lemma processFollowUpQuery_resolved:
  assumes "processFollowUpQuery q ctx = Inr q'"
  shows "q' = q \<or> (\<exists>prev. getLastQuery ctx = Some prev \<and> resolvedFrom prev q q')"
proof (cases "isFollowUpQuery ctx q")
  case (Inl e)
  with assms show ?thesis by (simp add: processFollowUpQuery_def)
next
  case (Inr b)
  show ?thesis
  proof (cases b)
    case False
    with Inr assms show ?thesis by (simp add: processFollowUpQuery_def)
  next
    case True
    show ?thesis
    proof (cases "getLastQuery ctx")
      case None
      with Inr True assms show ?thesis by (simp add: processFollowUpQuery_def)
    next
      case (Some prev)
      with Inr True assms have q': "q' = q \<lparr> queryType :=
              (if \<not> truthy (queryType q) \<and> truthy (h_queryType prev)
               then h_queryType prev else queryType q),
            entities := (entities q)
              \<lparr> locations :=
                  (if missing_list (locations (entities q)) \<and> locations (h_entities prev) \<noteq> None
                   then locations (h_entities prev) else locations (entities q)),
                buildingTypes :=
                  (if missing_list (buildingTypes (entities q)) \<and> buildingTypes (h_entities prev) \<noteq> None
                   then buildingTypes (h_entities prev) else buildingTypes (entities q)),
                timePeriods :=
                  (if missing_list (timePeriods (entities q)) \<and> timePeriods (h_entities prev) \<noteq> None
                   then timePeriods (h_entities prev) else timePeriods (entities q)) \<rparr> \<rparr>"
        by (simp add: processFollowUpQuery_def)
      have "resolvedFrom prev q q'"
        unfolding resolvedFrom_def q'
        using pick_falsy [of "queryType q" "h_queryType prev"]
          pick_missing [of "locations (entities q)" "locations (h_entities prev)"]
          pick_missing [of "buildingTypes (entities q)" "buildingTypes (h_entities prev)"]
          pick_missing [of "timePeriods (entities q)" "timePeriods (h_entities prev)"]
        by simp
      with Some show ?thesis by blast
    qed
  qed
qed

lemma incorporate_resolved:
  "incorporateConversationContext q c = q \<or>
     (\<exists>ctx' prev. c = Some ctx' \<and> getLastQuery ctx' = Some prev
         \<and> resolvedFrom prev q (incorporateConversationContext q c))"
proof (cases c)
  case None
  then show ?thesis by (simp add: incorporateConversationContext_def)
next
  case (Some ctx')
  show ?thesis
  proof (cases "getLastQuery ctx'")
    case None
    with Some show ?thesis by (simp add: incorporateConversationContext_def)
  next
    case (Some prev)
    have "resolvedFrom prev q (incorporateConversationContext q (Some ctx'))"
      using Some by (auto simp: incorporateConversationContext_def resolvedFrom_def populated_def truthy_def)
    with Some \<open>c = Some ctx'\<close> show ?thesis by blast
  qed
qed

lemma processFollowUpQuery_populated:
  assumes "fullyPopulated q" "originalQuery q \<noteq> None"
  shows "processFollowUpQuery q ctx = Inr q"
proof -
  from assms(1) have qt: "truthy (queryType q)"
    and loc: "\<not> missing_list (locations (entities q))"
    and bts: "\<not> missing_list (buildingTypes (entities q))"
    and tps: "\<not> missing_list (timePeriods (entities q))"
    by (simp_all add: fullyPopulated_def populated_not_missing)
  from assms(2) obtain t where oq: "originalQuery q = Some t" by blast
  show ?thesis
    using qt loc bts tps oq
    by (cases "getLastQuery ctx")
       (simp_all add: processFollowUpQuery_def isFollowUpQuery_def)
qed

lemma incorporate_populated:
  assumes "fullyPopulated q"
  shows "incorporateConversationContext q c = q"
proof -
  from assms have "queryType q \<noteq> None" "locations (entities q) \<noteq> None"
    "buildingTypes (entities q) \<noteq> None"
    by (auto simp: fullyPopulated_def truthy_def dest: populated_not_None split: option.splits)
  then show ?thesis
    by (auto simp: incorporateConversationContext_def split: option.splits)
qed

text \<open>
  Where follow-up resolution returns, in both places where the pipeline does it
  (\<open>processFollowUpQuery\<close> and \<open>incorporateConversationContext\<close>), it returns the query
  as it is or the query with some of intent, locations, building types and time periods
  taken from the last turn of the session, and it takes a field from there only where the
  query had not populated it. A query that carries its text and has all four populated
  comes back unchanged, whatever the session.
\<close>

lemma followup_resolution_with_text:
  "(processFollowUpQuery q ctx = Inr q' \<longrightarrow>
      q' = q \<or> (\<exists>prev. getLastQuery ctx = Some prev \<and> resolvedFrom prev q q'))
   \<and> (incorporateConversationContext q c = q \<or>
        (\<exists>ctx' prev. c = Some ctx' \<and> getLastQuery ctx' = Some prev
            \<and> resolvedFrom prev q (incorporateConversationContext q c)))
   \<and> (fullyPopulated q \<and> originalQuery q \<noteq> None \<longrightarrow> processFollowUpQuery q ctx = Inr q)
   \<and> (fullyPopulated q \<longrightarrow> incorporateConversationContext q c = q)"
  using processFollowUpQuery_resolved [of q ctx q'] incorporate_resolved [of q c]
    processFollowUpQuery_populated [of q ctx] incorporate_populated [of q c]
  by blast

lemma followup_resolution_example:
  "fullyPopulated sampleFullQuery \<and> originalQuery sampleFullQuery \<noteq> None
   \<and> getLastQuery sampleContext \<noteq> None
   \<and> isFollowUpQuery sampleContext sampleFullQuery = Inr True
   \<and> processFollowUpQuery sampleFullQuery sampleContext = Inr sampleFullQuery
   \<and> incorporateConversationContext sampleFullQuery (Some sampleContext) = sampleFullQuery
   \<and> processFollowUpQuery sampleFollowUp sampleContext
       = Inr (sampleFollowUp \<lparr> queryType := Some ''risk_assessment'' \<rparr>)"
proof -
  have full: "fullyPopulated sampleFullQuery \<and> originalQuery sampleFullQuery \<noteq> None"
    by (simp add: fullyPopulated_def sampleFullQuery_def truthy_def populated_def empty_entities_def)
  have last: "getLastQuery sampleContext \<noteq> None"
    by (simp add: getLastQuery_def sampleContext_def addQuery_def newConversationContext_def)
  have follow: "isFollowUpQuery sampleContext sampleFullQuery = Inr True"
    by code_simp
  have queens: "processFollowUpQuery sampleFollowUp sampleContext
       = Inr (sampleFollowUp \<lparr> queryType := Some ''risk_assessment'' \<rparr>)"
    by code_simp
  from full last follow queens
    followup_resolution_with_text
      [of sampleFullQuery sampleContext sampleFullQuery "Some sampleContext"]
  show ?thesis by blast
qed

text \<open>
  The text of a parsed query is the property \<open>originalQuery\<close> of the reply, not the
  question of the user: a reply without that property gives a query without text.
\<close>

lemma parsed_query_text:
  assumes "extractJson r = Some j" "parse j = Some payload"
  shows "originalQuery (parseModelResponse parse (Some r)) = p_originalQuery payload"
  using assms by (simp add: parseModelResponse_def)

text \<open>
  Without its text a populated query raises in every session that has an earlier turn:
  \<open>isFollowUpQuery\<close> calls \<open>match\<close> on the text once the intent is there.
\<close>

lemma textless_query_raises:
  assumes "truthy (queryType q)" "originalQuery q = None" "getLastQuery ctx \<noteq> None"
  shows "processFollowUpQuery q ctx = Inl TypeError"
  using assms
  by (auto simp: processFollowUpQuery_def isFollowUpQuery_def split: option.splits)

text \<open>
  C5 fails in the code. The query has intent, locations, building types and time periods
  populated and no text; the session has one earlier turn. \<open>processFollowUpQuery\<close> does
  not return the query unchanged: it raises a \<open>TypeError\<close>. The other resolver,
  \<open>incorporateConversationContext\<close>, returns the same query unchanged, and so does
  \<open>processFollowUpQuery\<close> in a session without an earlier turn, and for the same query
  with its text.
\<close>

theorem followup_raises_without_text:
  "fullyPopulated sampleTextlessQuery
   \<and> originalQuery sampleTextlessQuery = None
   \<and> length (previousQueries sampleContext) = 1
   \<and> processFollowUpQuery sampleTextlessQuery sampleContext = Inl TypeError
   \<and> incorporateConversationContext sampleTextlessQuery (Some sampleContext)
       = sampleTextlessQuery
   \<and> processFollowUpQuery sampleTextlessQuery (newConversationContext ''conv_b'' 1000)
       = Inr sampleTextlessQuery
   \<and> processFollowUpQuery sampleFullQuery sampleContext = Inr sampleFullQuery"
proof -
  have full: "fullyPopulated sampleTextlessQuery"
    by (simp add: fullyPopulated_def sampleTextlessQuery_def sampleFullQuery_def truthy_def
        populated_def empty_entities_def)
  have none: "originalQuery sampleTextlessQuery = None"
    by (simp add: sampleTextlessQuery_def)
  have one: "length (previousQueries sampleContext) = 1"
    by (simp add: sampleContext_def addQuery_def newConversationContext_def)
  have last: "getLastQuery sampleContext \<noteq> None"
    by (simp add: getLastQuery_def sampleContext_def addQuery_def newConversationContext_def)
  have qt: "truthy (queryType sampleTextlessQuery)"
    using full by (simp add: fullyPopulated_def)
  have raises: "processFollowUpQuery sampleTextlessQuery sampleContext = Inl TypeError"
    using qt none last by (rule textless_query_raises)
  have other: "incorporateConversationContext sampleTextlessQuery (Some sampleContext)
       = sampleTextlessQuery"
    using full by (rule incorporate_populated)
  have fresh: "processFollowUpQuery sampleTextlessQuery (newConversationContext ''conv_b'' 1000)
       = Inr sampleTextlessQuery"
    by (simp add: processFollowUpQuery_def isFollowUpQuery_def getLastQuery_def
        newConversationContext_def)
  have fullq: "fullyPopulated sampleFullQuery" "originalQuery sampleFullQuery \<noteq> None"
    by (simp_all add: fullyPopulated_def sampleFullQuery_def truthy_def populated_def
        empty_entities_def)
  then have with_text: "processFollowUpQuery sampleFullQuery sampleContext = Inr sampleFullQuery"
    by (rule processFollowUpQuery_populated)
  from full none one raises other fresh with_text show ?thesis by simp
qed

section \<open>Query interpretation: results\<close>

text \<open>
  C7. A location that contains a borough name becomes that name with its first letter in
  upper case. For the four one-word boroughs this is the canonical name; for Staten Island
  it is \<open>Staten island\<close>, with a small i, also when the input is the canonical name
  itself. A location with no borough name in it passes through.
\<close>

theorem staten_island_not_canonical:
  "normalizeLocation ''Staten Island'' = ''Staten island''
   \<and> normalizeLocation ''staten island, ny'' = ''Staten island''
   \<and> normalizeLocation ''BROOKLYN heights'' = ''Brooklyn''
   \<and> normalizeLocation ''Hoboken'' = ''Hoboken''"
  by code_simp

lemma validate_minimal: "validateAndNormalizeQuery y (minimalStructure r) = Inr (minimalStructure r)"
  by (simp add: validateAndNormalizeQuery_def minimalStructure_def empty_entities_def)

lemma parse_noPayload:
  "noPayload parse reply \<Longrightarrow> parseModelResponse parse reply = minimalStructure reply"
  by (auto simp: noPayload_def parseModelResponse_def split: option.splits)

lemma processQuery_noPayload:
  assumes "noPayload parse reply"
  shows "processQuery parse y query c (Resolved (reply # others))
           = Inr (incorporateConversationContext (minimalStructure reply) c)"
  using assms by (simp add: processQuery_def parse_noPayload validate_minimal)

lemma incorporate_noHistory: "noHistory c \<Longrightarrow> incorporateConversationContext q c = q"
  by (auto simp: noHistory_def incorporateConversationContext_def getLastQuery_def split: option.splits)

lemma incorporate_minimal_history:
  assumes "getLastQuery ctx = Some prev"
  shows "queryType (incorporateConversationContext (minimalStructure r) (Some ctx))
           = (if truthy (h_queryType prev) then h_queryType prev else None)
       \<and> locations (entities (incorporateConversationContext (minimalStructure r) (Some ctx)))
           = locations (h_entities prev)
       \<and> buildingTypes (entities (incorporateConversationContext (minimalStructure r) (Some ctx)))
           = buildingTypes (h_entities prev)"
  using assms
  by (auto simp: incorporateConversationContext_def minimalStructure_def empty_entities_def)

lemma incorporate_other_fields:
  "filters (incorporateConversationContext q c) = filters q
   \<and> aggregations (incorporateConversationContext q c) = aggregations q
   \<and> sortOrder (incorporateConversationContext q c) = sortOrder q
   \<and> limit (incorporateConversationContext q c) = limit q
   \<and> timePeriods (entities (incorporateConversationContext q c)) = timePeriods (entities q)"
  by (simp add: incorporateConversationContext_def split: option.splits)

text \<open>
  C4, as the code has it. When no well-formed payload can be extracted from the reply,
  \<open>parseModelResponse\<close> returns the unknown intent (\<open>null\<close>), empty entities, no
  filters and the default limit, and \<open>processQuery\<close> returns a query instead of raising.
  With no earlier turn in the session that query has the unknown intent and empty entities;
  with an earlier turn, follow-up resolution fills intent, locations and building types in
  from it.
\<close>

theorem unparsable_reply_fails_soft:
  "noPayload parse reply \<longrightarrow>
     queryType (parseModelResponse parse reply) = None
   \<and> entities (parseModelResponse parse reply) = empty_entities
   \<and> filters (parseModelResponse parse reply) = []
   \<and> limit (parseModelResponse parse reply) = 100
   \<and> (\<exists>q. processQuery parse y query c (Resolved (reply # others)) = Inr q
          \<and> filters q = [] \<and> aggregations q = [] \<and> sortOrder q = None \<and> limit q = 100
          \<and> (noHistory c \<longrightarrow> queryType q = None \<and> entities q = empty_entities)
          \<and> (\<forall>ctx prev. c = Some ctx \<and> getLastQuery ctx = Some prev \<longrightarrow>
                queryType q = (if truthy (h_queryType prev) then h_queryType prev else None)
                \<and> locations (entities q) = locations (h_entities prev)
                \<and> buildingTypes (entities q) = buildingTypes (h_entities prev)
                \<and> timePeriods (entities q) = None))"
proof
  assume u: "noPayload parse reply"
  let ?m = "minimalStructure reply"
  let ?q = "incorporateConversationContext ?m c"
  have p: "parseModelResponse parse reply = ?m"
    using u by (rule parse_noPayload)
  have run: "processQuery parse y query c (Resolved (reply # others)) = Inr ?q"
    using u by (rule processQuery_noPayload)
  have m: "queryType ?m = None" "entities ?m = empty_entities" "filters ?m = []"
    "aggregations ?m = []" "sortOrder ?m = None" "limit ?m = 100"
    "timePeriods (entities ?m) = None"
    by (simp_all add: minimalStructure_def empty_entities_def)
  have other: "filters ?q = [] \<and> aggregations ?q = [] \<and> sortOrder ?q = None \<and> limit ?q = 100
      \<and> timePeriods (entities ?q) = None"
    using incorporate_other_fields [of ?m c] m by simp
  have nohist: "noHistory c \<longrightarrow> queryType ?q = None \<and> entities ?q = empty_entities"
    using m by (simp add: incorporate_noHistory)
  have hist: "\<forall>ctx prev. c = Some ctx \<and> getLastQuery ctx = Some prev \<longrightarrow>
      queryType ?q = (if truthy (h_queryType prev) then h_queryType prev else None)
      \<and> locations (entities ?q) = locations (h_entities prev)
      \<and> buildingTypes (entities ?q) = buildingTypes (h_entities prev)
      \<and> timePeriods (entities ?q) = None"
  proof (intro allI impI)
    fix ctx prev
    assume a: "c = Some ctx \<and> getLastQuery ctx = Some prev"
    then have "getLastQuery ctx = Some prev" by simp
    from incorporate_minimal_history [OF this, of reply] other a
    show "queryType ?q = (if truthy (h_queryType prev) then h_queryType prev else None)
      \<and> locations (entities ?q) = locations (h_entities prev)
      \<and> buildingTypes (entities ?q) = buildingTypes (h_entities prev)
      \<and> timePeriods (entities ?q) = None"
      by simp
  qed
  show "queryType (parseModelResponse parse reply) = None
   \<and> entities (parseModelResponse parse reply) = empty_entities
   \<and> filters (parseModelResponse parse reply) = []
   \<and> limit (parseModelResponse parse reply) = 100
   \<and> (\<exists>q. processQuery parse y query c (Resolved (reply # others)) = Inr q
          \<and> filters q = [] \<and> aggregations q = [] \<and> sortOrder q = None \<and> limit q = 100
          \<and> (noHistory c \<longrightarrow> queryType q = None \<and> entities q = empty_entities)
          \<and> (\<forall>ctx prev. c = Some ctx \<and> getLastQuery ctx = Some prev \<longrightarrow>
                queryType q = (if truthy (h_queryType prev) then h_queryType prev else None)
                \<and> locations (entities q) = locations (h_entities prev)
                \<and> buildingTypes (entities q) = buildingTypes (h_entities prev)
                \<and> timePeriods (entities q) = None))"
    unfolding p using m run other nohist hist by blast
qed

theorem unparsable_reply_witness:
  "noPayload neverParses (Some ''Sorry, I cannot help with that.'')
   \<and> noHistory None
   \<and> processQuery neverParses 2026 ''Show me building data'' None
        (Resolved [Some ''Sorry, I cannot help with that.''])
      = Inr (minimalStructure (Some ''Sorry, I cannot help with that.''))
   \<and> queryType (minimalStructure (Some ''Sorry, I cannot help with that.'')) = None
   \<and> entities (minimalStructure (Some ''Sorry, I cannot help with that.'')) = empty_entities"
proof -
  have u: "noPayload neverParses (Some ''Sorry, I cannot help with that.'')"
    by (simp add: noPayload_def neverParses_def split: option.splits)
  have n: "noHistory None"
    by (simp add: noHistory_def)
  from unparsable_reply_fails_soft
    [of neverParses "Some ''Sorry, I cannot help with that.''" 2026
        "''Show me building data''" None "[]"] u n
  obtain q where q: "processQuery neverParses 2026 ''Show me building data'' None
        (Resolved [Some ''Sorry, I cannot help with that.'']) = Inr q"
      "queryType q = None" "entities q = empty_entities"
    by blast
  have "processQuery neverParses 2026 ''Show me building data'' None
        (Resolved [Some ''Sorry, I cannot help with that.''])
      = Inr (minimalStructure (Some ''Sorry, I cannot help with that.''))"
    using u by (simp add: processQuery_noPayload incorporateConversationContext_def)
  with u n q show ?thesis
    by (simp add: minimalStructure_def)
qed

text \<open>
  C4 as stated fails on a session with an earlier turn: the reply is plain prose, and the
  query returned has the intent and the location of the earlier turn, and the reply, not
  the user's question, as its text.
\<close>

theorem unparsable_reply_counterexample:
  "noPayload neverParses (Some ''Sorry, I cannot help with that.'')
   \<and> processQuery neverParses 2026 ''What about Queens instead?'' (Some sampleContext)
        (Resolved [Some ''Sorry, I cannot help with that.''])
      = Inr \<lparr> queryType = Some ''risk_assessment'',
              entities = \<lparr> locations = Some [''Brooklyn''], buildingTypes = None,
                           timePeriods = None, violationTypes = None,
                           propertyAttributes = None \<rparr>,
              filters = [], aggregations = [], sortOrder = None, limit = 100,
              originalQuery = Some ''Sorry, I cannot help with that.'' \<rparr>
   \<and> Some ''risk_assessment'' \<noteq> (None :: string option)
   \<and> ''Sorry, I cannot help with that.'' \<noteq> ''What about Queens instead?''"
  by code_simp

section \<open>Query compilation: results\<close>












lemma postgrestFilter_not_empty: "postgrestFilter f = Some t \<Longrightarrow> t \<noteq> []"
  by (auto simp: postgrestFilter_def split: if_splits jsval.splits)






section \<open>Numbers: results\<close>

lemma quotient_bounds:
  assumes "0 < x" "quotient_of x = (p, q)"
  shows "0 < p" "0 < q" "x = of_int p / of_int q"
    "(2::rat) powi (bitlen p - 1) \<le> of_int p" "of_int p < (2::rat) powi (bitlen p)"
    "(2::rat) powi (bitlen q - 1) \<le> of_int q" "of_int q < (2::rat) powi (bitlen q)"
proof -
  show q: "0 < q" using assms(2) by (rule quotient_of_denom_pos)
  show x: "x = of_int p / of_int q" using assms(2) by (rule quotient_of_div)
  show p: "0 < p" using assms(1) q x by (simp add: zero_less_divide_iff)
  have bp: "0 < bitlen p" "0 < bitlen q"
    using p q bitlen_nonneg [of "p div 2"] bitlen_nonneg [of "q div 2"]
      compute_bitlen [of p] compute_bitlen [of q] by simp_all
  from bitlen_bounds [OF p] have "2 ^ nat (bitlen p - 1) \<le> p" "p < 2 ^ nat (bitlen p)" by simp_all
  then have "(of_int (2 ^ nat (bitlen p - 1)) :: rat) \<le> of_int p"
    "(of_int p :: rat) < of_int (2 ^ nat (bitlen p))"
    by (simp_all only: of_int_le_iff of_int_less_iff)
  then show "(2::rat) powi (bitlen p - 1) \<le> of_int p" "of_int p < (2::rat) powi (bitlen p)"
    using bp by (simp_all add: power_int_def)
  from bitlen_bounds [OF q] have "2 ^ nat (bitlen q - 1) \<le> q" "q < 2 ^ nat (bitlen q)" by simp_all
  then have "(of_int (2 ^ nat (bitlen q - 1)) :: rat) \<le> of_int q"
    "(of_int q :: rat) < of_int (2 ^ nat (bitlen q))"
    by (simp_all only: of_int_le_iff of_int_less_iff)
  then show "(2::rat) powi (bitlen q - 1) \<le> of_int q" "of_int q < (2::rat) powi (bitlen q)"
    using bp by (simp_all add: power_int_def)
qed


lemma ilog2_upper:
  assumes "0 < x"
  shows "x < 2 powi (ilog2 x + 1)"
proof -
  obtain p q where pq: "quotient_of x = (p, q)" by (cases "quotient_of x")
  note b = quotient_bounds [OF assms pq]
  show ?thesis
  proof (cases "2 powi (bitlen p - bitlen q) \<le> x")
    case True
    have "x = of_int p / of_int q" by (rule b(3))
    also have "\<dots> < 2 powi (bitlen p) / 2 powi (bitlen q - 1)"
      using b by (intro frac_less) simp_all
    also have "\<dots> = 2 powi (bitlen p - bitlen q + 1)"
      by (simp add: power_int_diff power_int_add)
    finally show ?thesis using True by (simp add: ilog2_def pq)
  next
    case False
    then show ?thesis by (simp add: ilog2_def pq)
  qed
qed




text \<open>
  Doubles as they are known: a tenth, three tenths of a hundred, and the two whole
  numbers after \<open>2 ^ 53\<close> that lie halfway between doubles and go to the even one.
\<close>

lemma roundToDouble_examples:
  "roundToDouble (1 / 10) = 3602879701896397 / 36028797018963968"
  "roundToDouble (roundToDouble (3 / 10) * 100) = 30"
  "roundToDouble 9007199254740993 = 9007199254740992"
  "roundToDouble 9007199254740995 = 9007199254740996"
  "roundToDouble (- (1 / 10)) = - (3602879701896397 / 36028797018963968)"
  by code_simp+











section \<open>Statistical analysis: results\<close>

text \<open>
  C2. \<open>analyzeRiskData\<close> over zero rows: no building, every risk level counted zero
  times, and the percentage of every level computed as \<open>0 / 0\<close>, which is \<open>NaN\<close>.
  Nothing is raised, but the percentages are not numbers.
\<close>

theorem analyzeRiskData_empty_rows:
  "analyzeRiskData (Some []) =
     \<lparr> riskLevelCounts = Some [(''High'', 0), (''Medium'', 0), (''Low'', 0), (''Minimal'', 0)],
       totalBuildings = Some 0,
       riskLevelPercentages = Some [(''High'', NotANumber), (''Medium'', NotANumber),
                                    (''Low'', NotANumber), (''Minimal'', NotANumber)],
       commonFactors = None, topRiskBuildings = [],
       riskDistribution = Some [(''High'', 0), (''Medium'', 0), (''Low'', 0), (''Minimal'', 0)],
       riskByBorough = None, riskByBuildingAge = None \<rparr>
   \<and> percentage 0 0 = NotANumber"
  by (simp add: analyzeRiskData_def emptyRiskAnalysis_def percentage_def js_div_def
      js_times_def toFixed1_def Let_def)


section \<open>Pattern detection: results\<close>




























section \<open>Narrative generation: results\<close>

lemma narrative_raised:
  "raisesInTry outcome \<Longrightarrow> generateNarrativeInsights outcome = fallbackInsights"
  by (auto simp: raisesInTry_def generateNarrativeInsights_def
      split: completion.splits list.splits option.splits)

lemma narrative_succeeded:
  assumes "\<not> raisesInTry outcome"
  shows "\<exists>t others. outcome = Resolved (Some t # others)
           \<and> generateNarrativeInsights outcome
               = \<lparr> summary = trim t, keyFindings = extractKeyFindings (trim t),
                   explanations = extractExplanations (trim t), confidence = 85 / 100 \<rparr>"
proof -
  from assms obtain t others where "outcome = Resolved (Some t # others)"
    by (auto simp: raisesInTry_def split: completion.splits list.splits option.splits)
  then show ?thesis by (simp add: generateNarrativeInsights_def Let_def)
qed

lemma trim_empty: "trim [] = []"
  by (simp add: trim_def)

lemma extract_empty: "extractKeyFindings [] = [] \<and> extractExplanations [] = []"
  by (simp add: extractKeyFindings_def extractExplanations_def trim_empty)

text \<open>White space beyond ASCII is trimmed as well: a no-break space and a line separator.\<close>

lemma trim_unicode_space:
  "trim ([CHR 0xC2, CHR 0xA0] @ ''ok'' @ [CHR 0xE2, CHR 0x80, CHR 0xA8] @ '' '') = ''ok''"
  by code_simp

text \<open>
  C9, as the code has it. When the \<open>try\<close> block raises (the call to the Completion
  Service is rejected by a time-out or an error, or the completion is malformed: it has
  no choice, or its first choice has no text) the narrative is the fixed fallback: the
  apology as summary, no key findings, no explanations, confidence 0. Otherwise the first
  choice has a text, the summary is that text trimmed, the lists are what the extractors
  find in it, and the confidence is the constant 0.85 whatever the text. The function
  returns in both cases.
\<close>

theorem narrative_fallback_on_raise:
  "(raisesInTry outcome \<longrightarrow> generateNarrativeInsights outcome = fallbackInsights)
   \<and> summary fallbackInsights = ''Unable to generate insights due to an error.''
   \<and> keyFindings fallbackInsights = [] \<and> explanations fallbackInsights = []
   \<and> confidence fallbackInsights = 0
   \<and> (\<not> raisesInTry outcome \<longrightarrow>
         (\<exists>t others. outcome = Resolved (Some t # others)
            \<and> generateNarrativeInsights outcome
                = \<lparr> summary = trim t, keyFindings = extractKeyFindings (trim t),
                    explanations = extractExplanations (trim t), confidence = 85 / 100 \<rparr>))"
  using narrative_raised [of outcome] narrative_succeeded [of outcome]
  by (simp add: fallbackInsights_def)

theorem narrative_fallback_witness:
  "raisesInTry Rejected \<and> raisesInTry (Resolved []) \<and> raisesInTry (Resolved [None])
   \<and> generateNarrativeInsights Rejected = fallbackInsights
   \<and> generateNarrativeInsights (Resolved [None]) = fallbackInsights
   \<and> \<not> raisesInTry (Resolved [Some '' Violations rose because of age. ''])
   \<and> generateNarrativeInsights (Resolved [Some '' Violations rose because of age. ''])
       = \<lparr> summary = ''Violations rose because of age.'', keyFindings = [],
           explanations = [''because of age''], confidence = 85 / 100 \<rparr>"
proof -
  have f: "raisesInTry Rejected" "raisesInTry (Resolved [])" "raisesInTry (Resolved [None])"
    by (simp_all add: raisesInTry_def)
  have s: "\<not> raisesInTry (Resolved [Some '' Violations rose because of age. ''])"
    by (simp add: raisesInTry_def)
  have t: "trim '' Violations rose because of age. '' = ''Violations rose because of age.''"
    by code_simp
  have k: "extractKeyFindings ''Violations rose because of age.'' = []"
    by code_simp
  have e: "extractExplanations ''Violations rose because of age.'' = [''because of age'']"
    by code_simp
  from f s
    narrative_fallback_on_raise [of Rejected]
    narrative_fallback_on_raise [of "Resolved [None]"]
    narrative_fallback_on_raise [of "Resolved [Some '' Violations rose because of age. '']"]
  show ?thesis by (simp add: t k e)
qed

text \<open>
  C9 as stated fails for an empty completion: a first choice whose text is empty, or
  nothing but white space, is not taken as a failure. The narrative is not the fallback;
  its summary is empty and its confidence is 0.85.
\<close>

theorem empty_completion_counterexample:
  "generateNarrativeInsights (Resolved [Some ''''])
     = \<lparr> summary = '''', keyFindings = [], explanations = [], confidence = 85 / 100 \<rparr>
   \<and> generateNarrativeInsights (Resolved [Some '''']) \<noteq> fallbackInsights
   \<and> generateNarrativeInsights (Resolved [Some [CHR '' '', CHR 0x0A, CHR '' '']])
     = \<lparr> summary = '''', keyFindings = [], explanations = [], confidence = 85 / 100 \<rparr>"
proof -
  have blank: "trim [CHR '' '', CHR 0x0A, CHR '' ''] = []" by code_simp
  show ?thesis
    by (simp add: generateNarrativeInsights_def trim_empty blank extract_empty
        fallbackInsights_def)
qed

end
